theory Spec2Isabelle
  imports Main
begin

section \<open>The KickAI Judge computer-vision service (computer-vision/main.py)\<close>

text \<open>
  The module builds one FastAPI application with four routes and, when run as a script,
  reads three environment variables and starts the server. The handlers take no
  parameters and return dictionary literals; the framework serialises the returned
  dictionary as the JSON body of the response.
\<close>

subsection \<open>Response bodies\<close>

text \<open>
  A returned dictionary keeps the order of its keys, so it is an association list. The
  literals of the module contain strings and one nested dictionary only.
\<close>

datatype json = JStr string | JObj "(string \<times> json) list"

fun dict_get :: "json \<Rightarrow> string \<Rightarrow> json option" where
  "dict_get (JObj kvs) k = map_of kvs k"
| "dict_get (JStr s) k = None"

fun dict_keys :: "json \<Rightarrow> string list" where
  "dict_keys (JObj kvs) = map fst kvs"
| "dict_keys (JStr s) = []"

fun dict_values :: "json \<Rightarrow> json list" where
  "dict_values (JObj kvs) = map snd kvs"
| "dict_values (JStr s) = []"

fun is_JStr :: "json \<Rightarrow> bool" where
  "is_JStr (JStr s) = True"
| "is_JStr (JObj kvs) = False"

subsection \<open>The handlers\<close>

definition root :: json where
  "root = JObj
     [(''service'', JStr ''KickAI Judge Computer Vision''),
      (''version'', JStr ''1.0.0''),
      (''status'', JStr ''running''),
      (''endpoints'', JObj
         [(''health'', JStr ''/health''),
          (''process_video'', JStr ''/api/v1/process-video''),
          (''analyze_frame'', JStr ''/api/v1/analyze-frame'')])]"

definition health_check :: json where
  "health_check = JObj
     [(''status'', JStr ''healthy''),
      (''service'', JStr ''cv-service''),
      (''timestamp'', JStr ''2024-01-01T00:00:00Z'')]"

definition process_video :: json where
  "process_video = JObj
     [(''message'', JStr ''Video processing endpoint - to be implemented''),
      (''status'', JStr ''not_implemented'')]"

definition analyze_frame :: json where
  "analyze_frame = JObj
     [(''message'', JStr ''Frame analysis endpoint - to be implemented''),
      (''status'', JStr ''not_implemented'')]"

subsection \<open>Requests, the ambient process state and the route table\<close>

text \<open>
  A request carries a method, a path and content (query string, headers, body). The
  process in which a handler runs has an environment and a clock; a Python handler could
  read both, so the application takes them as an argument. The decorators
  \<open>@app.get\<close> and \<open>@app.post\<close> register each handler under a method and a path. Since
  no handler declares a parameter, the framework calls it with no argument: neither the
  request nor the process state reaches it. A request that matches no route is answered
  by the framework itself, not by this module: the application has no body of its own
  for it (\<open>None\<close>).
\<close>

datatype http_method = GET | POST | PUT | DELETE | OPTIONS | HEAD | PATCH

record request =
  req_method :: http_method
  req_path :: string
  req_query :: string
  req_headers :: "(string \<times> string) list"
  req_body :: string

type_synonym environ = "string \<rightharpoonup> string"

record world =
  environ :: environ
  now :: nat

type_synonym handler = "world \<Rightarrow> request \<Rightarrow> json"

definition routes :: "(http_method \<times> string \<times> handler) list" where
  "routes =
     [(GET, ''/'', \<lambda>w r. root),
      (GET, ''/health'', \<lambda>w r. health_check),
      (POST, ''/api/v1/process-video'', \<lambda>w r. process_video),
      (POST, ''/api/v1/analyze-frame'', \<lambda>w r. analyze_frame)]"

fun find_route :: "(http_method \<times> string \<times> handler) list \<Rightarrow> http_method \<Rightarrow> string \<Rightarrow> handler option" where
  "find_route [] m p = None"
| "find_route ((m', p', h) # rs) m p = (if m' = m \<and> p' = p then Some h else find_route rs m p)"

definition app :: "world \<Rightarrow> request \<Rightarrow> json option" where
  "app w r = (case find_route routes (req_method r) (req_path r) of
                None \<Rightarrow> None
              | Some h \<Rightarrow> Some (h w r))"

subsection \<open>The script entry point\<close>

text \<open>
  \<open>os.getenv(key, default)\<close> returns the string stored under the key, or the default
  object when the key is absent; without a default it returns \<open>None\<close>. The environment
  is the one the calls see, that is, after \<open>load_dotenv()\<close> has run at import time.
\<close>

datatype pyval = PNone | PInt int | PStr string

datatype error = ValueError | TypeError

definition os_getenv :: "environ \<Rightarrow> string \<Rightarrow> pyval \<Rightarrow> pyval" where
  "os_getenv env key dflt = (case env key of None \<Rightarrow> dflt | Some v \<Rightarrow> PStr v)"

text \<open>
  The builtin \<open>int\<close> returns an integer unchanged, raises \<open>TypeError\<close> on \<open>None\<close> and
  reads a string as a literal, raising \<open>ValueError\<close> when the string is not one. Which
  strings are literals is decided by the language, not by this module, so the reading
  function is a parameter \<open>rd\<close> (\<open>None\<close> where the string is not a literal).
\<close>

fun py_int :: "(string \<Rightarrow> int option) \<Rightarrow> pyval \<Rightarrow> error + int" where
  "py_int rd (PInt n) = Inr n"
| "py_int rd (PStr s) = (case rd s of None \<Rightarrow> Inl ValueError | Some n \<Rightarrow> Inr n)"
| "py_int rd PNone = Inl TypeError"

text \<open>Formatting inside the f-string: \<open>str\<close> of an integer is its decimal numeral.\<close>

definition digit_char :: "nat \<Rightarrow> char" where
  "digit_char d = ''0123456789'' ! (d mod 10)"

fun digits_of_nat :: "nat \<Rightarrow> string" where
  "digits_of_nat n =
     (if n < 10 then [digit_char n] else digits_of_nat (n div 10) @ [digit_char (n mod 10)])"

declare digits_of_nat.simps [simp del]

definition str_of_int :: "int \<Rightarrow> string" where
  "str_of_int i = (if i < 0 then CHR ''-'' # digits_of_nat (nat (- i)) else digits_of_nat (nat i))"

fun py_str :: "pyval \<Rightarrow> string" where
  "py_str PNone = ''None''"
| "py_str (PInt n) = str_of_int n"
| "py_str (PStr s) = s"

text \<open>The first character of the printed line, U+1F94A, as its four UTF-8 bytes.\<close>

definition boxing_glove :: string where
  "boxing_glove = [CHR 0xF0, CHR 0x9F, CHR 0xA5, CHR 0x8A]"

text \<open>
  The block under \<open>if __name__ == "__main__"\<close>. It reads the port (which may raise),
  then the host, prints one line and calls \<open>uvicorn.run\<close>. The result is the exception
  that ends the script before the server is started, or the printed line together with
  the arguments handed to \<open>uvicorn.run\<close>.
\<close>

record launch =
  printed :: string
  run_app :: string
  run_host :: pyval
  run_port :: int
  run_reload :: bool

definition main :: "(string \<Rightarrow> int option) \<Rightarrow> environ \<Rightarrow> error + launch" where
  "main rd env =
     (case py_int rd (os_getenv env ''CV_PORT'' (PInt 8000)) of
        Inl e \<Rightarrow> Inl e
      | Inr port \<Rightarrow>
          (let host = os_getenv env ''CV_HOST'' (PStr ''0.0.0.0'')
           in Inr \<lparr>printed = boxing_glove @ '' Starting KickAI Judge CV Service on ''
                              @ py_str host @ '':'' @ py_str (PInt port),
                   run_app = ''main:app'',
                   run_host = host,
                   run_port = port,
                   run_reload = (if os_getenv env ''ENV'' PNone = PStr ''development''
                                 then True else False)\<rparr>))"

subsection \<open>A reader of decimal literals\<close>

text \<open>
  An instance of the parameter \<open>rd\<close> for ASCII input: whitespace on both sides is
  dropped, one sign may come first, and the rest is decimal digits, with single
  underscores allowed between two digits.
\<close>

definition is_space :: "char \<Rightarrow> bool" where
  "is_space c = (c \<in> set [CHR '' '', CHR 0x09, CHR 0x0A, CHR 0x0B, CHR 0x0C, CHR 0x0D])"

definition is_digit :: "char \<Rightarrow> bool" where
  "is_digit c = (c \<in> set ''0123456789'')"

definition digit_val :: "char \<Rightarrow> nat" where
  "digit_val c = of_char c - 48"

fun digit_seq :: "bool \<Rightarrow> nat \<Rightarrow> string \<Rightarrow> nat option" where
  "digit_seq prev acc [] = (if prev then Some acc else None)"
| "digit_seq prev acc (c # cs) =
     (if is_digit c then digit_seq True (10 * acc + digit_val c) cs
      else if c = CHR ''_'' \<and> prev then digit_seq False acc cs
      else None)"

definition strip :: "string \<Rightarrow> string" where
  "strip s = rev (dropWhile is_space (rev (dropWhile is_space s)))"

definition read_decimal :: "string \<Rightarrow> int option" where
  "read_decimal s =
     (case strip s of
        [] \<Rightarrow> None
      | c # cs \<Rightarrow>
          if c = CHR ''-'' then map_option (\<lambda>n. - int n) (digit_seq False 0 cs)
          else if c = CHR ''+'' then map_option int (digit_seq False 0 cs)
          else map_option int (digit_seq False 0 (c # cs)))"

subsection \<open>Reading the answer to a request\<close>

text \<open>The field of an answer, when the request was answered and the field is there.\<close>

definition response_field :: "json option \<Rightarrow> string \<Rightarrow> json option" where
  "response_field resp k = (case resp of None \<Rightarrow> None | Some j \<Rightarrow> dict_get j k)"

section \<open>Dispatch\<close>

lemma app_root: "req_method r = GET \<Longrightarrow> req_path r = ''/'' \<Longrightarrow> app w r = Some root"
  by (simp add: app_def routes_def)

lemma app_health:
  "req_method r = GET \<Longrightarrow> req_path r = ''/health'' \<Longrightarrow> app w r = Some health_check"
  by (simp add: app_def routes_def)

lemma app_process_video:
  "req_method r = POST \<Longrightarrow> req_path r = ''/api/v1/process-video'' \<Longrightarrow> app w r = Some process_video"
  by (simp add: app_def routes_def)

lemma app_analyze_frame:
  "req_method r = POST \<Longrightarrow> req_path r = ''/api/v1/analyze-frame'' \<Longrightarrow> app w r = Some analyze_frame"
  by (simp add: app_def routes_def)

text \<open>
  Every handler of the route table ignores both of its arguments, so an answer depends on
  the method and the path of the request alone.
\<close>

lemma routed_handler_constant:
  "find_route routes m p = Some h \<Longrightarrow> h w r = h w' r'"
  by (auto simp: routes_def split: if_splits)

lemma app_route_only:
  assumes "req_method r' = req_method r" and "req_path r' = req_path r"
  shows "app w' r' = app w r"
proof (cases "find_route routes (req_method r) (req_path r)")
  case None
  with assms show ?thesis by (simp add: app_def)
next
  case (Some h)
  from routed_handler_constant [OF Some] have "h w' r' = h w r" .
  with assms Some show ?thesis by (simp add: app_def)
qed

lemma app_answers_four_routes:
  "(app w r \<noteq> None) =
   ((req_method r, req_path r) \<in> set [(GET, ''/''), (GET, ''/health''),
        (POST, ''/api/v1/process-video''), (POST, ''/api/v1/analyze-frame'')])"
  by (auto simp: app_def routes_def split: if_splits)

section \<open>The placeholder endpoints\<close>

text \<open>
  Claim C1. Every request to the process-video endpoint and every request to the
  analyze-frame endpoint is answered, and the \<open>status\<close> field of the answer is the string
  \<open>not_implemented\<close>, whatever the request carries and whatever the process state is.
\<close>

theorem placeholders_not_implemented:
  assumes "req_method r = POST"
      and "req_path r = ''/api/v1/process-video'' \<or> req_path r = ''/api/v1/analyze-frame''"
  shows "\<exists>resp. app w r = Some resp \<and> dict_get resp ''status'' = Some (JStr ''not_implemented'')"
  using assms
  by (auto simp: app_process_video app_analyze_frame process_video_def analyze_frame_def)

theorem placeholders_not_implemented_witness:
  "(\<exists>resp. app \<lparr>environ = Map.empty, now = 0\<rparr>
              \<lparr>req_method = POST, req_path = ''/api/v1/process-video'', req_query = '''',
               req_headers = [], req_body = ''video bytes''\<rparr> = Some resp
          \<and> dict_get resp ''status'' = Some (JStr ''not_implemented''))
   \<and> (\<exists>resp. app \<lparr>environ = Map.empty, now = 7\<rparr>
              \<lparr>req_method = POST, req_path = ''/api/v1/analyze-frame'', req_query = '''',
               req_headers = [], req_body = ''image bytes''\<rparr> = Some resp
          \<and> dict_get resp ''status'' = Some (JStr ''not_implemented''))"
proof
  show "\<exists>resp. app \<lparr>environ = Map.empty, now = 0\<rparr>
              \<lparr>req_method = POST, req_path = ''/api/v1/process-video'', req_query = '''',
               req_headers = [], req_body = ''video bytes''\<rparr> = Some resp
          \<and> dict_get resp ''status'' = Some (JStr ''not_implemented'')"
    by (rule placeholders_not_implemented) simp_all
  show "\<exists>resp. app \<lparr>environ = Map.empty, now = 7\<rparr>
              \<lparr>req_method = POST, req_path = ''/api/v1/analyze-frame'', req_query = '''',
               req_headers = [], req_body = ''image bytes''\<rparr> = Some resp
          \<and> dict_get resp ''status'' = Some (JStr ''not_implemented'')"
    by (rule placeholders_not_implemented) simp_all
qed

text \<open>
  Claim C2, as stated: the answer of process-video to an accepted video payload and video
  identifier is an AnalysisReport with the fields \<open>video_id\<close>, a sequence of StrikeEvent
  and \<open>total_frames_processed\<close>. The handler is a placeholder (its body is a TODO and the
  answer says so): for a request that carries a video and an identifier, the keys of the
  answer are \<open>message\<close> and \<open>status\<close>, and neither \<open>video_id\<close> nor
  \<open>total_frames_processed\<close> is among its fields.
\<close>

theorem process_video_report_counterexample:
  "map_option dict_keys
     (app \<lparr>environ = Map.empty, now = 0\<rparr>
          \<lparr>req_method = POST, req_path = ''/api/v1/process-video'', req_query = ''video_id=42'',
           req_headers = [], req_body = ''video bytes''\<rparr>) = Some [''message'', ''status'']
   \<and> response_field
     (app \<lparr>environ = Map.empty, now = 0\<rparr>
          \<lparr>req_method = POST, req_path = ''/api/v1/process-video'', req_query = ''video_id=42'',
           req_headers = [], req_body = ''video bytes''\<rparr>) ''video_id'' = None
   \<and> response_field
     (app \<lparr>environ = Map.empty, now = 0\<rparr>
          \<lparr>req_method = POST, req_path = ''/api/v1/process-video'', req_query = ''video_id=42'',
           req_headers = [], req_body = ''video bytes''\<rparr>) ''total_frames_processed'' = None"
  by (simp add: app_def routes_def process_video_def response_field_def)

text \<open>
  Claim C2, amended. Every request to process-video, whatever payload or identifier it
  carries, gets the same fixed object: the message
  \<open>Video processing endpoint - to be implemented\<close> and the status \<open>not_implemented\<close>,
  two fields that hold strings, with no \<open>video_id\<close>, no sequence of StrikeEvent and no
  \<open>total_frames_processed\<close>.
\<close>

theorem process_video_fixed_response:
  assumes "req_method r = POST" and "req_path r = ''/api/v1/process-video''"
  shows "app w r = Some (JObj [(''message'', JStr ''Video processing endpoint - to be implemented''),
                               (''status'', JStr ''not_implemented'')])
         \<and> map_option dict_keys (app w r) = Some [''message'', ''status'']
         \<and> map_option (list_all is_JStr \<circ> dict_values) (app w r) = Some True"
  using assms by (simp add: app_process_video process_video_def)

theorem process_video_fixed_response_witness:
  "app \<lparr>environ = [''ENV'' \<mapsto> ''development''], now = 1700000000\<rparr>
       \<lparr>req_method = POST, req_path = ''/api/v1/process-video'', req_query = ''video_id=42'',
        req_headers = [(''content-type'', ''video/mp4'')], req_body = ''video bytes''\<rparr>
   = Some (JObj [(''message'', JStr ''Video processing endpoint - to be implemented''),
                 (''status'', JStr ''not_implemented'')])"
proof -
  have "req_method \<lparr>req_method = POST, req_path = ''/api/v1/process-video'',
          req_query = ''video_id=42'', req_headers = [(''content-type'', ''video/mp4'')],
          req_body = ''video bytes''\<rparr> = POST"
    by simp
  moreover have "req_path \<lparr>req_method = POST, req_path = ''/api/v1/process-video'',
          req_query = ''video_id=42'', req_headers = [(''content-type'', ''video/mp4'')],
          req_body = ''video bytes''\<rparr> = ''/api/v1/process-video''"
    by simp
  ultimately show ?thesis
    by (rule process_video_fixed_response [THEN conjunct1])
qed

text \<open>
  Claim C3, as stated: the answer of analyze-frame to an image payload contains the set
  of PoseEstimate of the image and the StrikeEvent detected in it. The handler is a
  placeholder as well: for a request that carries an image, the answer has the two keys
  \<open>message\<close> and \<open>status\<close>, and each of its values is a string, so it holds neither a
  set of poses nor an event.
\<close>

theorem analyze_frame_poses_counterexample:
  "map_option dict_keys
     (app \<lparr>environ = Map.empty, now = 0\<rparr>
          \<lparr>req_method = POST, req_path = ''/api/v1/analyze-frame'', req_query = '''',
           req_headers = [(''content-type'', ''image/png'')], req_body = ''image bytes''\<rparr>)
     = Some [''message'', ''status'']
   \<and> map_option (list_all is_JStr \<circ> dict_values)
     (app \<lparr>environ = Map.empty, now = 0\<rparr>
          \<lparr>req_method = POST, req_path = ''/api/v1/analyze-frame'', req_query = '''',
           req_headers = [(''content-type'', ''image/png'')], req_body = ''image bytes''\<rparr>)
     = Some True"
  by (simp add: app_def routes_def analyze_frame_def)

text \<open>
  Claim C3, amended. Every request to analyze-frame, whatever image payload it carries,
  gets the same fixed object: the message \<open>Frame analysis endpoint - to be implemented\<close>
  and the status \<open>not_implemented\<close>, two fields that hold strings, with no PoseEstimate
  and no StrikeEvent.
\<close>

theorem analyze_frame_fixed_response:
  assumes "req_method r = POST" and "req_path r = ''/api/v1/analyze-frame''"
  shows "app w r = Some (JObj [(''message'', JStr ''Frame analysis endpoint - to be implemented''),
                               (''status'', JStr ''not_implemented'')])
         \<and> map_option dict_keys (app w r) = Some [''message'', ''status'']
         \<and> map_option (list_all is_JStr \<circ> dict_values) (app w r) = Some True"
  using assms by (simp add: app_analyze_frame analyze_frame_def)

theorem analyze_frame_fixed_response_witness:
  "app \<lparr>environ = Map.empty, now = 12\<rparr>
       \<lparr>req_method = POST, req_path = ''/api/v1/analyze-frame'', req_query = '''',
        req_headers = [(''content-type'', ''image/png'')], req_body = ''image bytes''\<rparr>
   = Some (JObj [(''message'', JStr ''Frame analysis endpoint - to be implemented''),
                 (''status'', JStr ''not_implemented'')])"
proof -
  have "req_method \<lparr>req_method = POST, req_path = ''/api/v1/analyze-frame'',
          req_query = '''', req_headers = [(''content-type'', ''image/png'')],
          req_body = ''image bytes''\<rparr> = POST"
    by simp
  moreover have "req_path \<lparr>req_method = POST, req_path = ''/api/v1/analyze-frame'',
          req_query = '''', req_headers = [(''content-type'', ''image/png'')],
          req_body = ''image bytes''\<rparr> = ''/api/v1/analyze-frame''"
    by simp
  ultimately show ?thesis
    by (rule analyze_frame_fixed_response [THEN conjunct1])
qed



section \<open>The health endpoint\<close>

text \<open>
  Claim C4. Every request to the health endpoint gets the same static answer, the
  dictionary literal of \<open>health_check\<close>: any two such requests, whatever they carry and
  whatever the state of the process that serves them, are answered alike.
\<close>

theorem health_static:
  assumes "req_method r1 = GET" and "req_path r1 = ''/health''"
      and "req_method r2 = GET" and "req_path r2 = ''/health''"
  shows "app w1 r1 = Some health_check \<and> app w2 r2 = app w1 r1"
  using assms by (simp add: app_health)

theorem health_static_witness:
  "app \<lparr>environ = Map.empty, now = 3\<rparr>
       \<lparr>req_method = GET, req_path = ''/health'', req_query = '''', req_headers = [],
        req_body = ''''\<rparr> = Some health_check
   \<and> app \<lparr>environ = [''CV_PORT'' \<mapsto> ''9000''], now = 86400\<rparr>
       \<lparr>req_method = GET, req_path = ''/health'', req_query = ''verbose=1'',
        req_headers = [(''accept'', ''*/*'')], req_body = ''ignored''\<rparr>
     = app \<lparr>environ = Map.empty, now = 3\<rparr>
       \<lparr>req_method = GET, req_path = ''/health'', req_query = '''', req_headers = [],
        req_body = ''''\<rparr>"
  by (rule health_static) simp_all

text \<open>
  Claim C9. For every call to the health endpoint the \<open>timestamp\<close> field of the answer
  is the constant string \<open>2024-01-01T00:00:00Z\<close>, whatever the clock of the process
  shows.
\<close>

theorem health_timestamp_constant:
  assumes "req_method r = GET" and "req_path r = ''/health''"
  shows "response_field (app (w\<lparr>now := t\<rparr>) r) ''timestamp'' = Some (JStr ''2024-01-01T00:00:00Z'')"
  using assms by (simp add: app_health health_check_def response_field_def)

theorem health_timestamp_constant_witness:
  "response_field
     (app (\<lparr>environ = Map.empty, now = 0\<rparr>\<lparr>now := 1762214400\<rparr>)
          \<lparr>req_method = GET, req_path = ''/health'', req_query = '''', req_headers = [],
           req_body = ''''\<rparr>) ''timestamp'' = Some (JStr ''2024-01-01T00:00:00Z'')"
  by (rule health_timestamp_constant) simp_all

section \<open>The environment at startup\<close>





text \<open>
  Claim C5. The mode flag \<open>ENV\<close> has no effect on any endpoint: under any two settings
  of it (a value or none) every request is answered alike. At startup it decides the
  \<open>reload\<close> argument of \<open>uvicorn.run\<close> and nothing else: the outcome of the script under
  one setting is its outcome under the other with \<open>reload\<close> replaced, and \<open>reload\<close> is on
  exactly when the flag is \<open>development\<close>.
\<close>

theorem env_flag_only_reload:
  "app (w\<lparr>environ := (environ w)(''ENV'' := v1)\<rparr>) r
     = app (w\<lparr>environ := (environ w)(''ENV'' := v2)\<rparr>) r
   \<and> main rd (env(''ENV'' := v1))
     = map_sum id (\<lambda>l. l\<lparr>run_reload := (v1 = Some ''development'')\<rparr>) (main rd (env(''ENV'' := v2)))"
proof
  show "app (w\<lparr>environ := (environ w)(''ENV'' := v1)\<rparr>) r
          = app (w\<lparr>environ := (environ w)(''ENV'' := v2)\<rparr>) r"
    by (rule app_route_only) simp_all
  show "main rd (env(''ENV'' := v1))
          = map_sum id (\<lambda>l. l\<lparr>run_reload := (v1 = Some ''development'')\<rparr>) (main rd (env(''ENV'' := v2)))"
    by (auto simp: main_def os_getenv_def Let_def split: sum.splits option.splits)
qed

theorem env_flag_only_reload_witness:
  "app \<lparr>environ = [''ENV'' \<mapsto> ''development''], now = 5\<rparr>
       \<lparr>req_method = GET, req_path = ''/'', req_query = '''', req_headers = [], req_body = ''''\<rparr>
     = app \<lparr>environ = [''ENV'' \<mapsto> ''production''], now = 5\<rparr>
       \<lparr>req_method = GET, req_path = ''/'', req_query = '''', req_headers = [], req_body = ''''\<rparr>
   \<and> main read_decimal [''ENV'' \<mapsto> ''development'']
     = map_sum id (\<lambda>l. l\<lparr>run_reload := True\<rparr>) (main read_decimal [''ENV'' \<mapsto> ''production''])"
  using env_flag_only_reload [of "\<lparr>environ = Map.empty, now = 5\<rparr>" "Some ''development''"
      "\<lparr>req_method = GET, req_path = ''/'', req_query = '''', req_headers = [], req_body = ''''\<rparr>"
      "Some ''production''" read_decimal Map.empty]
  by simp



end
